theory Spec2Isabelle
  imports Complex_Main
begin

section \<open>Values of the JavaScript program\<close>

text \<open>
  The module under verification is the Google Calendar utility module of the backend
  (functions \<open>getUserTokensFromDatabase\<close>, \<open>refreshUserTokensFromDatabase\<close>,
  \<open>getCalendarClientFromDatabase\<close>, \<open>formatEventForGoogleCalendar\<close>,
  \<open>syncEventsToDatabaseFromDatabase\<close>, \<open>getUserConnectionStatusFromDatabase\<close>)
  together with the token refresh handler of the routes file.

  Representation of the JavaScript data:
  \<^item> an instant (a \<open>Date\<close>, or a timestamp column read through \<open>new Date(...)\<close>) is its
    \<open>getTime()\<close> value, an integer number of milliseconds since the epoch;
  \<^item> a calendar date string \<open>YYYY-MM-DD\<close> is its day number since 1970-01-01, and a
    time of day \<open>HH:MM\<close> is its number of minutes since midnight;
  \<^item> a nullable column or an optional property is an \<open>option\<close> (\<open>None\<close> for
    \<open>null\<close>/\<open>undefined\<close>); where the program itself distinguishes \<open>undefined\<close>,
    \<open>null\<close> and a value (the fields of the status object) the type \<open>js\<close> is used.
  Timestamps and date strings are taken to be well formed: a string that \<open>Date\<close> cannot
  parse is outside the model.
\<close>

type_synonym instant = int

datatype 'a js = Undefined | Null | Val 'a

definition js_of_option :: "'a option \<Rightarrow> 'a js" where
  "js_of_option v = (case v of None \<Rightarrow> Null | Some x \<Rightarrow> Val x)"

text \<open>Truthiness of an optional string: \<open>null\<close>, \<open>undefined\<close> and \<open>""\<close> are falsy.\<close>

definition truthy :: "string option \<Rightarrow> bool" where
  "truthy v = (case v of None \<Rightarrow> False | Some s \<Rightarrow> s \<noteq> [])"

text \<open>\<open>v || d\<close> on an optional string.\<close>

definition js_or :: "string option \<Rightarrow> string \<Rightarrow> string" where
  "js_or v d = (case v of None \<Rightarrow> d | Some s \<Rightarrow> if s = [] then d else s)"

text \<open>Truthiness of a value that is \<open>null\<close> or a boolean, and \<open>a && b\<close> on such values:
  \<open>&&\<close> returns its left operand when that is falsy, its right operand otherwise.\<close>

definition js_truthy :: "bool js \<Rightarrow> bool" where
  "js_truthy v = (v = Val True)"

definition js_and :: "bool js \<Rightarrow> bool js \<Rightarrow> bool js" where
  "js_and a b = (if js_truthy a then b else a)"

text \<open>A value interpolated into a template literal: \<open>undefined\<close> prints as its name.\<close>

definition template_str :: "string option \<Rightarrow> string" where
  "template_str v = (case v of None \<Rightarrow> ''undefined'' | Some s \<Rightarrow> s)"

definition day_ms :: int where
  "day_ms = 24 * 60 * 60 * 1000"

text \<open>\<open>toISOString().split('T')[0]\<close>: the UTC calendar date of an instant.\<close>

definition utc_date :: "instant \<Rightarrow> int" where
  "utc_date t = t div day_ms"

text \<open>\<open>toISOString().split('T')[1].substring(0, 5)\<close>: the UTC \<open>HH:MM\<close> of an instant.\<close>

definition utc_hhmm :: "instant \<Rightarrow> nat" where
  "utc_hhmm t = nat ((t mod day_ms) div (60 * 1000))"

section \<open>Tables, remote services and the state of one process\<close>

text \<open>A row of table \<open>google_calendar_tokens\<close>.\<close>

record token_row =
  tok_user_id :: string
  tok_email :: string
  tok_access_token :: string
  tok_refresh_token :: "string option"
  tok_expiry_date :: "instant option"

text \<open>The credentials object returned by the authorization server's refresh operation.\<close>

record credentials =
  cred_access_token :: string
  cred_refresh_token :: "string option"
  cred_expiry_date :: "instant option"

text \<open>What \<open>getUserTokensFromDatabase\<close> returns: the four stored fields
  (access token, refresh token, expiry, user id), or the refreshed credentials.\<close>

datatype user_tokens =
  StoredTokens string "string option" "instant option" string
| RefreshedTokens credentials

text \<open>The credentials held by the module-wide OAuth2 client.\<close>

datatype client_credentials =
  NoCredentials
| RefreshTokenOnly string
| ClientTokens user_tokens

text \<open>A remote event: its start is either a timed instant (\<open>start.dateTime\<close>) or a bare
  date (\<open>start.date\<close>). A timed start is an RFC 3339 string such as
  \<open>2024-01-15T20:30:00-05:00\<close>: the date and time as written (milliseconds since the
  epoch, read as if they were UTC) and the UTC offset in milliseconds.\<close>

datatype remote_start = StartDateTime int int | StartDate int

text \<open>\<open>new Date(event.start.dateTime)\<close>: the instant a date-time string with an offset
  denotes.\<close>

definition date_time_offset :: "int \<Rightarrow> int \<Rightarrow> instant" where
  "date_time_offset written offset = written - offset"

record remote_event =
  re_summary :: "string option"
  re_description :: "string option"
  re_start :: remote_start

text \<open>A row of table \<open>calendar_events\<close>.\<close>

record event_row =
  ev_user_id :: string
  ev_class_id :: "string option"
  ev_title :: string
  ev_description :: "string option"
  ev_event_type :: string
  ev_due_date :: int
  ev_due_time :: "nat option"
  ev_confidence_score :: real
  ev_source_text :: string
  ev_created_at :: instant

text \<open>The state the module reads and writes: the two tables, the module-wide OAuth2
  client, and the log of refresh tokens presented to the authorization server.\<close>

record world =
  google_calendar_tokens :: "token_row list"
  calendar_events :: "event_row list"
  oauth2Client :: client_credentials
  oauth_calls :: "string list"

text \<open>How a store call can fail: it resolves with an \<open>error\<close> object, or the promise
  rejects.\<close>

datatype fault = QueryError string | Rejected string

text \<open>The answers of the external collaborators during one invocation: faults of the
  store calls, the authorization server's answer to a refresh token (\<open>Inl\<close>: the call
  throws), and the calendar service's answer to \<open>events.list\<close> for a calendar id and a
  window (the page of at most 2500 single events, ordered by start time, that the
  service returns).\<close>

record env =
  token_select_fault :: "fault option"
  refreshAccessToken :: "string \<Rightarrow> string + credentials"
  token_update_fault :: "fault option"
  events_list :: "string \<Rightarrow> instant \<Rightarrow> instant \<Rightarrow> string + remote_event list"
  upsert_fault :: "fault option"

datatype error =
  UserIdRequired
| NoTokensFound
| TokenExpiredNoRefresh
| TokenUpdateFailed string
| SyncFailed string
| Thrown string

section \<open>Credential manager\<close>

text \<open>\<open>.select("*").eq("user_id", userId).single()\<close>: the one matching row; no row or
  several rows give an error and no data.\<close>

definition select_single :: "token_row list \<Rightarrow> string \<Rightarrow> token_row option" where
  "select_single rows userId =
     (case filter (\<lambda>r. tok_user_id r = userId) rows of
        [r] \<Rightarrow> Some r
      | _ \<Rightarrow> None)"

text \<open>\<open>credentials.expiry_date ? new Date(credentials.expiry_date).toISOString() : null\<close>:
  an absent expiry and the number 0 are both falsy.\<close>

definition expiry_to_store :: "instant option \<Rightarrow> instant option" where
  "expiry_to_store e = (case e of None \<Rightarrow> None | Some t \<Rightarrow> if t = 0 then None else Some t)"

text \<open>\<open>.update({access_token, expiry_date}).eq("user_id", userId)\<close>.\<close>

definition update_tokens :: "string \<Rightarrow> credentials \<Rightarrow> token_row list \<Rightarrow> token_row list" where
  "update_tokens userId c rows =
     map (\<lambda>r. if tok_user_id r = userId
               then r\<lparr>tok_access_token := cred_access_token c,
                      tok_expiry_date := expiry_to_store (cred_expiry_date c)\<rparr>
               else r) rows"

definition refreshUserTokensFromDatabase ::
  "env \<Rightarrow> string \<Rightarrow> string \<Rightarrow> world \<Rightarrow> (error + credentials) \<times> world" where
  "refreshUserTokensFromDatabase e userId refreshToken w =
     (let w1 = w\<lparr>oauth2Client := RefreshTokenOnly refreshToken,
                  oauth_calls := oauth_calls w @ [refreshToken]\<rparr>
      in case refreshAccessToken e refreshToken of
           Inl msg \<Rightarrow> (Inl (Thrown msg), w1)
         | Inr c \<Rightarrow>
             (case token_update_fault e of
                Some (Rejected msg) \<Rightarrow> (Inl (Thrown msg), w1)
              | Some (QueryError msg) \<Rightarrow> (Inl (TokenUpdateFailed msg), w1)
              | None \<Rightarrow>
                  (Inr c, w1\<lparr>google_calendar_tokens :=
                               update_tokens userId c (google_calendar_tokens w1)\<rparr>)))"

text \<open>\<open>tokenData.expiry_date && new Date() > new Date(tokenData.expiry_date)\<close>.\<close>

definition expiry_check :: "instant \<Rightarrow> instant option \<Rightarrow> bool js" where
  "expiry_check now e = (case e of None \<Rightarrow> Null | Some t \<Rightarrow> Val (now > t))"

definition getUserTokensFromDatabase ::
  "env \<Rightarrow> instant \<Rightarrow> string \<Rightarrow> world \<Rightarrow> (error + user_tokens) \<times> world" where
  "getUserTokensFromDatabase e now userId w =
     (if userId = [] then (Inl UserIdRequired, w)
      else case token_select_fault e of
        Some (Rejected msg) \<Rightarrow> (Inl (Thrown msg), w)
      | Some (QueryError msg) \<Rightarrow> (Inl NoTokensFound, w)
      | None \<Rightarrow>
          (case select_single (google_calendar_tokens w) userId of
             None \<Rightarrow> (Inl NoTokensFound, w)
           | Some tokenData \<Rightarrow>
               if js_truthy (expiry_check now (tok_expiry_date tokenData)) then
                 (case tok_refresh_token tokenData of
                    None \<Rightarrow> (Inl TokenExpiredNoRefresh, w)
                  | Some rt \<Rightarrow>
                      if rt = [] then (Inl TokenExpiredNoRefresh, w)
                      else (case refreshUserTokensFromDatabase e userId rt w of
                              (Inl err, w') \<Rightarrow> (Inl err, w')
                            | (Inr c, w') \<Rightarrow> (Inr (RefreshedTokens c), w')))
               else
                 (Inr (StoredTokens (tok_access_token tokenData) (tok_refresh_token tokenData)
                         (tok_expiry_date tokenData) (tok_user_id tokenData)), w)))"

definition getCalendarClientFromDatabase ::
  "env \<Rightarrow> instant \<Rightarrow> string \<Rightarrow> world \<Rightarrow> (error + user_tokens) \<times> world" where
  "getCalendarClientFromDatabase e now userId w =
     (case getUserTokensFromDatabase e now userId w of
        (Inl err, w') \<Rightarrow> (Inl err, w')
      | (Inr tokens, w') \<Rightarrow> (Inr tokens, w'\<lparr>oauth2Client := ClientTokens tokens\<rparr>))"

text \<open>The standalone refresh action, handler of \<open>POST /google/refresh/:userId\<close>: the
  HTTP status it answers with and, on success, the credentials in the body.\<close>

definition refresh_route ::
  "env \<Rightarrow> string \<Rightarrow> world \<Rightarrow> (nat \<times> credentials option) \<times> world" where
  "refresh_route e userId w =
     (if userId = [] then ((400, None), w)
      else case token_select_fault e of
        Some (Rejected msg) \<Rightarrow> ((500, None), w)
      | Some (QueryError msg) \<Rightarrow> ((404, None), w)
      | None \<Rightarrow>
          (case select_single (google_calendar_tokens w) userId of
             None \<Rightarrow> ((404, None), w)
           | Some tokenData \<Rightarrow>
               (case tok_refresh_token tokenData of
                  None \<Rightarrow> ((404, None), w)
                | Some rt \<Rightarrow>
                    if rt = [] then ((404, None), w)
                    else
                      (let w1 = w\<lparr>oauth2Client := RefreshTokenOnly rt,
                                   oauth_calls := oauth_calls w @ [rt]\<rparr>
                       in case refreshAccessToken e rt of
                            Inl msg \<Rightarrow> ((500, None), w1)
                          | Inr c \<Rightarrow>
                              (case token_update_fault e of
                                 Some f \<Rightarrow> ((500, None), w1)
                               | None \<Rightarrow>
                                   ((200, Some c),
                                    w1\<lparr>google_calendar_tokens :=
                                         update_tokens userId c
                                           (google_calendar_tokens w1)\<rparr>))))))"

section \<open>Connection status\<close>

text \<open>The status object: \<open>lastSync\<close>, \<open>needsRefresh\<close> and \<open>error\<close> are \<open>Undefined\<close>
  when the returned object has no such property.\<close>

record connection_status =
  connected :: bool
  lastSync :: "instant js"
  needsRefresh :: "bool js"
  status_error :: "string js"

definition not_connected :: connection_status where
  "not_connected =
     \<lparr>connected = False, lastSync = Undefined, needsRefresh = Undefined,
      status_error = Undefined\<rparr>"

definition getUserConnectionStatusFromDatabase ::
  "env \<Rightarrow> instant \<Rightarrow> string \<Rightarrow> world \<Rightarrow> connection_status \<times> world" where
  "getUserConnectionStatusFromDatabase e now userId w =
     (if userId = [] then (not_connected, w)
      else case token_select_fault e of
        Some (Rejected msg) \<Rightarrow> (not_connected\<lparr>status_error := Val msg\<rparr>, w)
      | Some (QueryError msg) \<Rightarrow> (not_connected, w)
      | None \<Rightarrow>
          (case select_single (google_calendar_tokens w) userId of
             None \<Rightarrow> (not_connected, w)
           | Some tokenData \<Rightarrow>
               (let isExpired = expiry_check now (tok_expiry_date tokenData)
                in (\<lparr>connected =
                       (\<not> js_truthy isExpired \<or> truthy (tok_refresh_token tokenData)),
                     lastSync = js_of_option (tok_expiry_date tokenData),
                     needsRefresh =
                       js_and isExpired (Val (truthy (tok_refresh_token tokenData))),
                     status_error = Undefined\<rparr>, w))))"

section \<open>Event mapper\<close>

text \<open>The event data pushed to the remote calendar. The process's local time zone is its
  IANA identifier and the conversion of a local wall-clock time (milliseconds since the
  epoch, read as if the wall clock were UTC) into the instant it denotes.\<close>

record event_data =
  ed_title :: string
  ed_description :: "string option"
  ed_location :: "string option"
  ed_due_date :: int
  ed_due_time :: "nat option"

record zone =
  zone_id :: string
  utc_of_local :: "int \<Rightarrow> instant"

record event_time =
  dateTime :: instant
  timeZone :: string

record reminder =
  rem_method :: string
  rem_minutes :: nat

record google_event =
  g_summary :: string
  g_description :: string
  g_location :: string
  g_start :: event_time
  g_end :: event_time
  g_useDefault :: bool
  g_overrides :: "reminder list"

text \<open>\<open>new Date("YYYY-MM-DD")\<close>: a date-only string denotes midnight UTC of that day.\<close>

definition date_only :: "int \<Rightarrow> instant" where
  "date_only d = d * day_ms"

text \<open>\<open>new Date("YYYY-MM-DDTHH:MM")\<close>: a date-time string with no offset denotes that
  wall-clock time in the local zone.\<close>

definition date_time_local :: "zone \<Rightarrow> int \<Rightarrow> nat \<Rightarrow> instant" where
  "date_time_local tz d m = utc_of_local tz (d * day_ms + int m * (60 * 1000))"

definition formatEventForGoogleCalendar :: "zone \<Rightarrow> event_data \<Rightarrow> google_event" where
  "formatEventForGoogleCalendar tz eventData =
     (let dueDate = date_only (ed_due_date eventData);
          startTime = (case ed_due_time eventData of
                         Some m \<Rightarrow> date_time_local tz (ed_due_date eventData) m
                       | None \<Rightarrow> dueDate);
          endTime = (case ed_due_time eventData of
                       Some m \<Rightarrow> startTime + 60 * 60 * 1000
                     | None \<Rightarrow> dueDate + 24 * 60 * 60 * 1000)
      in \<lparr>g_summary = ed_title eventData,
          g_description = js_or (ed_description eventData) [],
          g_location = js_or (ed_location eventData) [],
          g_start = \<lparr>dateTime = startTime, timeZone = zone_id tz\<rparr>,
          g_end = \<lparr>dateTime = endTime, timeZone = zone_id tz\<rparr>,
          g_useDefault = False,
          g_overrides = [\<lparr>rem_method = ''email'', rem_minutes = 24 * 60\<rparr>,
                         \<lparr>rem_method = ''popup'', rem_minutes = 30\<rparr>]\<rparr>)"

text \<open>The callback of \<open>events.map\<close> in \<open>syncEventsToDatabaseFromDatabase\<close>: the row
  stored for one remote event; \<open>created\<close> is the clock reading of that call.\<close>

definition eventToInsert :: "string \<Rightarrow> instant \<Rightarrow> remote_event \<Rightarrow> event_row" where
  "eventToInsert userId created event =
     \<lparr>ev_user_id = userId,
      ev_class_id = None,
      ev_title = js_or (re_summary event) ''Untitled Event'',
      ev_description = Some (js_or (re_description event) []),
      ev_event_type = ''google_calendar'',
      ev_due_date = (case re_start event of
                       StartDateTime written offset \<Rightarrow>
                         utc_date (date_time_offset written offset)
                     | StartDate d \<Rightarrow> d),
      ev_due_time = (case re_start event of
                       StartDateTime written offset \<Rightarrow>
                         Some (utc_hhmm (date_time_offset written offset))
                     | StartDate d \<Rightarrow> None),
      ev_confidence_score = 1.0,
      ev_source_text = ''Google Calendar Event: '' @ template_str (re_summary event),
      ev_created_at = created\<rparr>"

text \<open>\<open>eventsToInsert\<close>: \<open>stamp i\<close> is the clock reading while the \<open>i\<close>-th event is
  mapped.\<close>

definition eventsToInsert ::
  "string \<Rightarrow> (nat \<Rightarrow> instant) \<Rightarrow> remote_event list \<Rightarrow> event_row list" where
  "eventsToInsert userId stamp events =
     map (\<lambda>(i, event). eventToInsert userId (stamp i) event) (enumerate 0 events)"

section \<open>Sync engine\<close>

text \<open>The conflict key \<open>user_id,title,due_date\<close> of the upsert.\<close>

definition conflict_key :: "event_row \<Rightarrow> string \<times> string \<times> int" where
  "conflict_key r = (ev_user_id r, ev_title r, ev_due_date r)"

text \<open>Modelled from the spec: the relational store's \<open>upsert-with-conflict-key\<close> on table
  \<open>calendar_events\<close>, which is not part of the repository. "A row matching on
  (userId, title, dueDate) is overwritten in place rather than duplicated; rows differing
  in any key field are inserted fresh", applied to the rows of the batch in order.\<close>

definition upsert_row :: "event_row list \<Rightarrow> event_row \<Rightarrow> event_row list" where
  "upsert_row tbl r =
     (if conflict_key r \<in> conflict_key ` set tbl
      then map (\<lambda>x. if conflict_key x = conflict_key r then r else x) tbl
      else tbl @ [r])"

text \<open>Modelled from the spec: the batch form of the same store operation,
  \<open>.upsert(eventsToInsert, {onConflict: "user_id,title,due_date"})\<close>.\<close>

definition upsert :: "event_row list \<Rightarrow> event_row list \<Rightarrow> event_row list" where
  "upsert tbl batch = foldl upsert_row tbl batch"

record sync_result =
  syncedCount :: nat
  events :: "remote_event list"

text \<open>\<open>now\<close> is the clock reading used for the expiry check and the default window.\<close>

definition syncEventsToDatabaseFromDatabase ::
  "env \<Rightarrow> instant \<Rightarrow> (nat \<Rightarrow> instant) \<Rightarrow> string \<Rightarrow> string \<Rightarrow> instant option \<Rightarrow>
   instant option \<Rightarrow> world \<Rightarrow> (error + sync_result) \<times> world" where
  "syncEventsToDatabaseFromDatabase e now stamp userId calendarId startDate endDate w =
     (case getCalendarClientFromDatabase e now userId w of
        (Inl err, w1) \<Rightarrow> (Inl err, w1)
      | (Inr calendar, w1) \<Rightarrow>
          (let timeMin = (case startDate of Some s \<Rightarrow> s | None \<Rightarrow> now);
               timeMax = (case endDate of Some t \<Rightarrow> t
                          | None \<Rightarrow> now + 365 * 24 * 60 * 60 * 1000)
           in case events_list e calendarId timeMin timeMax of
                Inl msg \<Rightarrow> (Inl (Thrown msg), w1)
              | Inr evs \<Rightarrow>
                  (case upsert_fault e of
                     Some (Rejected msg) \<Rightarrow> (Inl (Thrown msg), w1)
                   | Some (QueryError msg) \<Rightarrow> (Inl (SyncFailed msg), w1)
                   | None \<Rightarrow>
                       (Inr \<lparr>syncedCount = length evs, events = evs\<rparr>,
                        w1\<lparr>calendar_events :=
                             upsert (calendar_events w1)
                               (eventsToInsert userId stamp evs)\<rparr>))))"

section \<open>Auxiliary definitions for the statements\<close>

text \<open>The fields of a credential record that a refresh must leave alone.\<close>

definition frame :: "token_row \<Rightarrow> string \<times> string \<times> string option" where
  "frame r = (tok_user_id r, tok_email r, tok_refresh_token r)"

text \<open>A sequence of later credential resolutions for one user, each with the answers of
  the collaborators and the clock reading of its own invocation.\<close>

fun resolve_each ::
  "(env \<times> instant) list \<Rightarrow> string \<Rightarrow> world \<Rightarrow> (error + user_tokens) list \<times> world" where
  "resolve_each [] userId w = ([], w)"
| "resolve_each ((e, now) # rest) userId w =
     (case getUserTokensFromDatabase e now userId w of
        (r, w1) \<Rightarrow> (case resolve_each rest userId w1 of (rs, w2) \<Rightarrow> (r # rs, w2)))"

text \<open>Concrete data for the examples: a state holding the given credential records, the
  credential record of user \<open>u1\<close>, and collaborators that answer without faults (the
  authorization server with access token \<open>a2\<close> and the given expiry, the calendar
  service with the given events).\<close>

definition world_of :: "token_row list \<Rightarrow> world" where
  "world_of rows =
     \<lparr>google_calendar_tokens = rows, calendar_events = [], oauth2Client = NoCredentials,
      oauth_calls = []\<rparr>"

definition ex_row :: "string option \<Rightarrow> instant option \<Rightarrow> token_row" where
  "ex_row rt expiry =
     \<lparr>tok_user_id = ''u1'', tok_email = ''user-u1@law-bandit.com'', tok_access_token = ''a1'',
      tok_refresh_token = rt, tok_expiry_date = expiry\<rparr>"

definition ex_env :: "instant option \<Rightarrow> remote_event list \<Rightarrow> env" where
  "ex_env expiry evs =
     \<lparr>token_select_fault = None,
      refreshAccessToken =
        (\<lambda>rt. Inr \<lparr>cred_access_token = ''a2'', cred_refresh_token = Some rt,
                    cred_expiry_date = expiry\<rparr>),
      token_update_fault = None,
      events_list = (\<lambda>calendarId timeMin timeMax. Inr evs),
      upsert_fault = None\<rparr>"

text \<open>The date portion and the time-of-day portion of a remote start, as the remote
  service wrote them.\<close>

definition start_date_portion :: "remote_start \<Rightarrow> int" where
  "start_date_portion s =
     (case s of StartDateTime written offset \<Rightarrow> utc_date written | StartDate d \<Rightarrow> d)"

definition start_time_portion :: "remote_start \<Rightarrow> nat option" where
  "start_time_portion s =
     (case s of StartDateTime written offset \<Rightarrow> Some (utc_hhmm written)
      | StartDate d \<Rightarrow> None)"

text \<open>A remote event starting at 2024-01-15T20:30:00-05:00, that is 2024-01-16T01:30:00Z.\<close>

definition ex_timed :: remote_event where
  "ex_timed = \<lparr>re_summary = Some ''Moot court'', re_description = None,
                re_start = StartDateTime 1705350600000 (- 18000000)\<rparr>"

text \<open>The same event as the system would push it: due on 2024-01-15 at 20:30.\<close>

definition ex_evening :: event_data where
  "ex_evening = \<lparr>ed_title = ''Moot court'', ed_description = None, ed_location = None,
                  ed_due_date = 19737, ed_due_time = Some 1230\<rparr>"

definition ex_untitled :: remote_event where
  "ex_untitled = \<lparr>re_summary = None, re_description = None, re_start = StartDate 19737\<rparr>"

text \<open>Two remote events with the same summary on the same day, and the state of a user
  whose stored credential does not expire.\<close>

definition ex_lunch :: "string \<Rightarrow> remote_event" where
  "ex_lunch d = \<lparr>re_summary = Some ''Lunch'', re_description = Some d,
                  re_start = StartDate 19737\<rparr>"

definition ex_w0 :: world where
  "ex_w0 = world_of [ex_row (Some ''r1'') None]"

text \<open>A process whose local zone is five hours behind UTC, and an event due on
  2024-01-15 (day 19737) with no due time.\<close>

definition ex_zone :: zone where
  "ex_zone = \<lparr>zone_id = ''America/New_York'',
               utc_of_local = (\<lambda>local. local + 5 * 60 * 60 * 1000)\<rparr>"

definition ex_all_day :: event_data where
  "ex_all_day = \<lparr>ed_title = ''Brief due'', ed_description = None, ed_location = None,
                  ed_due_date = 19737, ed_due_time = None\<rparr>"

section \<open>Facts about the building blocks\<close>

lemma utc_hhmm_lt: "utc_hhmm t < 1440"
proof -
  have "t mod day_ms < day_ms" by (simp add: day_ms_def)
  then have "(t mod day_ms) div (60 * 1000) < 1440"
    by (simp add: day_ms_def div_less_iff_less_mult)
  then show ?thesis by (simp add: utc_hhmm_def)
qed

lemma utc_split_bounds:
  "utc_date t * day_ms + int (utc_hhmm t) * (60 * 1000) \<le> t \<and>
   t < utc_date t * day_ms + int (utc_hhmm t) * (60 * 1000) + 60 * 1000"
proof -
  define r where "r = t mod day_ms"
  define q where "q = r div (60 * 1000)"
  have r0: "0 \<le> r" by (simp add: r_def day_ms_def)
  have t: "t = utc_date t * day_ms + r"
    by (simp add: r_def utc_date_def)
  have q0: "0 \<le> q" using r0 by (simp add: q_def pos_imp_zdiv_nonneg_iff)
  have r: "r = q * (60 * 1000) + r mod (60 * 1000)"
    by (simp add: q_def)
  have m: "0 \<le> r mod (60 * 1000)" "r mod (60 * 1000) < 60 * 1000" by simp_all
  have "int (utc_hhmm t) = q" using q0 by (simp add: utc_hhmm_def q_def r_def)
  then show ?thesis using t r m by linarith
qed

lemma select_single_ex [simp]: "select_single [ex_row rt x] ''u1'' = Some (ex_row rt x)"
  by (simp add: select_single_def ex_row_def)

lemma select_single_user: "select_single rows u = Some row \<Longrightarrow> tok_user_id row = u"
proof -
  assume a: "select_single rows u = Some row"
  then have "filter (\<lambda>r. tok_user_id r = u) rows = [row]"
    by (auto simp: select_single_def split: list.splits)
  then have "row \<in> set (filter (\<lambda>r. tok_user_id r = u) rows)" by simp
  then show ?thesis by simp
qed

lemma frame_update_tokens: "map frame (update_tokens u c rows) = map frame rows"
  by (induction rows) (simp_all add: update_tokens_def frame_def)

lemma others_update_tokens:
  "filter (\<lambda>r. tok_user_id r \<noteq> u) (update_tokens u c rows) =
   filter (\<lambda>r. tok_user_id r \<noteq> u) rows"
  by (induction rows) (simp_all add: update_tokens_def)

lemma filter_update_tokens:
  "filter (\<lambda>r. tok_user_id r = v) (update_tokens u c rows) =
   update_tokens u c (filter (\<lambda>r. tok_user_id r = v) rows)"
  by (induction rows) (simp_all add: update_tokens_def)

lemma select_single_update_tokens:
  "select_single rows u = Some row \<Longrightarrow>
   select_single (update_tokens u c rows) u =
     Some (row\<lparr>tok_access_token := cred_access_token c,
               tok_expiry_date := expiry_to_store (cred_expiry_date c)\<rparr>)"
proof -
  assume a: "select_single rows u = Some row"
  then have f: "filter (\<lambda>r. tok_user_id r = u) rows = [row]"
    by (auto simp: select_single_def split: list.splits)
  have u: "tok_user_id row = u" using a by (rule select_single_user)
  show ?thesis
    by (simp add: select_single_def filter_update_tokens f) (simp add: update_tokens_def u)
qed

lemma refresh_tokens_cases:
  "google_calendar_tokens (snd (refreshUserTokensFromDatabase e u rt w)) =
     google_calendar_tokens w \<or>
   (\<exists>c. refreshAccessToken e rt = Inr c \<and>
     google_calendar_tokens (snd (refreshUserTokensFromDatabase e u rt w)) =
       update_tokens u c (google_calendar_tokens w))"
  by (auto simp: refreshUserTokensFromDatabase_def Let_def
      split: sum.splits option.splits fault.splits)

lemma refresh_events:
  "calendar_events (snd (refreshUserTokensFromDatabase e u rt w)) = calendar_events w"
  by (auto simp: refreshUserTokensFromDatabase_def Let_def
      split: sum.splits option.splits fault.splits)

lemma get_tokens_cases:
  "snd (getUserTokensFromDatabase e now u w) = w \<or>
   (\<exists>rt. snd (getUserTokensFromDatabase e now u w) =
      snd (refreshUserTokensFromDatabase e u rt w))"
  by (auto simp: getUserTokensFromDatabase_def
      split: option.splits fault.splits prod.splits sum.splits)
    (metis snd_conv)+

lemma get_tokens_events:
  "calendar_events (snd (getUserTokensFromDatabase e now u w)) = calendar_events w"
  using get_tokens_cases [of e now u w] by (auto simp: refresh_events)

lemma route_tokens_cases:
  "google_calendar_tokens (snd (refresh_route e u w)) = google_calendar_tokens w \<or>
   (\<exists>c. google_calendar_tokens (snd (refresh_route e u w)) =
       update_tokens u c (google_calendar_tokens w))"
  by (auto simp: refresh_route_def Let_def split: sum.splits option.splits fault.splits)

lemma resolve_non_expiring:
  assumes "u \<noteq> []" and "token_select_fault e = None"
    and "select_single (google_calendar_tokens w) u = Some row"
    and "tok_expiry_date row = None"
  shows "getUserTokensFromDatabase e now u w =
     (Inr (StoredTokens (tok_access_token row) (tok_refresh_token row) None u), w)"
  using assms select_single_user [OF assms(3)]
  by (simp add: getUserTokensFromDatabase_def expiry_check_def js_truthy_def)

lemma resolve_each_non_expiring:
  assumes "u \<noteq> []" and "select_single (google_calendar_tokens w) u = Some row"
    and "tok_expiry_date row = None"
  shows "\<forall>(e, now) \<in> set calls. token_select_fault e = None \<Longrightarrow>
     resolve_each calls u w =
       (replicate (length calls)
          (Inr (StoredTokens (tok_access_token row) (tok_refresh_token row) None u)), w)"
proof (induction calls)
  case Nil
  then show ?case by simp
next
  case (Cons a calls)
  obtain e now where a: "a = (e, now)" by (cases a)
  with Cons.prems have f: "token_select_fault e = None" by simp
  from Cons have ih: "resolve_each calls u w =
       (replicate (length calls)
          (Inr (StoredTokens (tok_access_token row) (tok_refresh_token row) None u)), w)"
    by simp
  show ?case
    by (simp add: a resolve_non_expiring [OF assms(1) f assms(2) assms(3)] ih)
qed

subsection \<open>The upsert\<close>

lemma upsert_row_keys:
  "map conflict_key (upsert_row tbl r) =
     (if conflict_key r \<in> conflict_key ` set tbl then map conflict_key tbl
      else map conflict_key tbl @ [conflict_key r])"
  by (induction tbl) (auto simp: upsert_row_def)

lemma upsert_snoc: "upsert tbl (batch @ [r]) = upsert_row (upsert tbl batch) r"
  by (simp add: upsert_def)

lemma upsert_row_keys_set:
  "conflict_key ` set (upsert_row tbl r) = insert (conflict_key r) (conflict_key ` set tbl)"
proof -
  have "conflict_key ` set (upsert_row tbl r) = set (map conflict_key (upsert_row tbl r))"
    by simp
  also have "\<dots> = insert (conflict_key r) (conflict_key ` set tbl)"
  proof (cases "conflict_key r \<in> conflict_key ` set tbl")
    case True
    then show ?thesis unfolding upsert_row_keys by auto
  next
    case False
    then show ?thesis unfolding upsert_row_keys by auto
  qed
  finally show ?thesis .
qed

lemma upsert_keys_set:
  "conflict_key ` set (upsert tbl batch) = conflict_key ` set tbl \<union> conflict_key ` set batch"
proof (induction batch rule: rev_induct)
  case Nil
  then show ?case by (simp add: upsert_def)
next
  case (snoc r batch)
  then show ?case by (simp add: upsert_snoc upsert_row_keys_set)
qed

lemma filter_absent_key:
  "k \<notin> conflict_key ` set tbl \<Longrightarrow> filter (\<lambda>x. conflict_key x = k) tbl = []"
  by (induction tbl) auto

lemma filter_replace_other:
  "k \<noteq> conflict_key r \<Longrightarrow>
   filter (\<lambda>x. conflict_key x = k)
     (map (\<lambda>x. if conflict_key x = conflict_key r then r else x) tbl) =
   filter (\<lambda>x. conflict_key x = k) tbl"
  by (induction tbl) auto

lemma upsert_distinct:
  "distinct (map conflict_key tbl) \<Longrightarrow> distinct (map conflict_key (upsert tbl batch))"
proof (induction batch rule: rev_induct)
  case Nil
  then show ?case by (simp add: upsert_def)
next
  case (snoc r batch)
  then show ?case by (simp add: upsert_snoc upsert_row_keys)
qed

lemma upsert_length_known_keys:
  "conflict_key ` set batch \<subseteq> conflict_key ` set tbl \<Longrightarrow>
   length (upsert tbl batch) = length tbl"
proof (induction batch rule: rev_induct)
  case Nil
  then show ?case by (simp add: upsert_def)
next
  case (snoc r batch)
  then have k: "conflict_key r \<in> conflict_key ` set (upsert tbl batch)"
    by (auto simp: upsert_keys_set)
  have "length (map conflict_key (upsert_row (upsert tbl batch) r)) =
      length (map conflict_key (upsert tbl batch))"
    using k by (simp only: upsert_row_keys if_True)
  with snoc show ?case by (simp add: upsert_snoc)
qed

lemma filter_replace_key:
  "distinct (map conflict_key tbl) \<Longrightarrow> conflict_key r \<in> conflict_key ` set tbl \<Longrightarrow>
   filter (\<lambda>x. conflict_key x = conflict_key r)
     (map (\<lambda>x. if conflict_key x = conflict_key r then r else x) tbl) = [r]"
proof (induction tbl)
  case Nil
  then show ?case by simp
next
  case (Cons a tbl)
  show ?case
  proof (cases "conflict_key a = conflict_key r")
    case True
    with Cons.prems have "conflict_key r \<notin> conflict_key ` set tbl" by auto
    then have "filter (\<lambda>x. conflict_key x = conflict_key r) tbl = []"
      by (rule filter_absent_key)
    then have "filter (\<lambda>x. conflict_key x = conflict_key r)
        (map (\<lambda>x. if conflict_key x = conflict_key r then r else x) tbl) = []"
      by (auto simp: filter_empty_conv)
    with True show ?thesis by simp
  next
    case False
    with Cons show ?thesis by auto
  qed
qed

lemma filter_upsert_row_same:
  "distinct (map conflict_key tbl) \<Longrightarrow>
   filter (\<lambda>x. conflict_key x = conflict_key r) (upsert_row tbl r) = [r]"
proof (cases "conflict_key r \<in> conflict_key ` set tbl")
  case True
  assume "distinct (map conflict_key tbl)"
  with True show ?thesis by (simp add: upsert_row_def filter_replace_key)
next
  case False
  then have "filter (\<lambda>x. conflict_key x = conflict_key r) tbl = []"
    by (rule filter_absent_key)
  with False show ?thesis by (simp add: upsert_row_def)
qed

lemma filter_upsert_row_other:
  "k \<noteq> conflict_key r \<Longrightarrow>
   filter (\<lambda>x. conflict_key x = k) (upsert_row tbl r) = filter (\<lambda>x. conflict_key x = k) tbl"
  by (simp add: upsert_row_def filter_replace_other)

lemma upsert_later_wins:
  assumes "distinct (map conflict_key tbl)"
  shows "k \<in> conflict_key ` set batch \<Longrightarrow>
     filter (\<lambda>x. conflict_key x = k) (upsert tbl batch) =
       [last (filter (\<lambda>x. conflict_key x = k) batch)]"
proof (induction batch rule: rev_induct)
  case Nil
  then show ?case by simp
next
  case (snoc r batch)
  show ?case
  proof (cases "k = conflict_key r")
    case True
    then show ?thesis
      using filter_upsert_row_same [OF upsert_distinct [OF assms], of r batch]
      by (simp add: upsert_snoc)
  next
    case False
    with snoc.prems have "k \<in> conflict_key ` set batch" by auto
    with snoc.IH False show ?thesis
      by (auto simp: upsert_snoc filter_upsert_row_other)
  qed
qed

lemma map_snd_enumerate_fun: "map (\<lambda>p. g (snd p)) (enumerate n xs) = map g xs"
proof -
  have "map g xs = map g (map snd (enumerate n xs))"
    by (simp only: map_snd_enumerate)
  also have "\<dots> = map (g \<circ> snd) (enumerate n xs)"
    by (simp only: map_map)
  finally show ?thesis by (simp add: comp_def)
qed

lemma eventsToInsert_keys:
  "map conflict_key (eventsToInsert u stamp evs) =
   map (\<lambda>ev. conflict_key (eventToInsert u 0 ev)) evs"
proof -
  have "map conflict_key (eventsToInsert u stamp evs) =
      map (\<lambda>p. conflict_key (eventToInsert u 0 (snd p))) (enumerate 0 evs)"
    by (simp add: eventsToInsert_def conflict_key_def eventToInsert_def case_prod_beta)
  also have "\<dots> = map (\<lambda>ev. conflict_key (eventToInsert u 0 ev)) evs"
    by (rule map_snd_enumerate_fun)
  finally show ?thesis .
qed

lemma sync_events_success:
  assumes "syncEventsToDatabaseFromDatabase e now stamp u cal sd ed w = (Inr res, w1)"
  shows "calendar_events w1 =
     upsert (calendar_events w) (eventsToInsert u stamp (events res))"
proof -
  obtain r w' where g: "getUserTokensFromDatabase e now u w = (r, w')"
    by (cases "getUserTokensFromDatabase e now u w")
  have c: "calendar_events w' = calendar_events w"
    using get_tokens_events [of e now u w] g by simp
  show ?thesis
    using assms g c
    by (auto simp: syncEventsToDatabaseFromDatabase_def getCalendarClientFromDatabase_def
        Let_def split: sum.splits option.splits fault.splits)
qed

lemma sync_events_failure:
  assumes "syncEventsToDatabaseFromDatabase e now stamp u cal sd ed w = (Inl err, w1)"
  shows "calendar_events w1 = calendar_events w"
proof -
  obtain r w' where g: "getUserTokensFromDatabase e now u w = (r, w')"
    by (cases "getUserTokensFromDatabase e now u w")
  have c: "calendar_events w' = calendar_events w"
    using get_tokens_events [of e now u w] g by simp
  show ?thesis
    using assms g c
    by (auto simp: syncEventsToDatabaseFromDatabase_def getCalendarClientFromDatabase_def
        Let_def split: sum.splits option.splits fault.splits)
qed

subsection \<open>The status probe and the event draft\<close>

lemma connection_status_formulas:
  assumes "userId \<noteq> []" and "token_select_fault e = None"
    and "select_single (google_calendar_tokens w) userId = Some row"
  shows
    "connected (fst (getUserConnectionStatusFromDatabase e now userId w)) =
       (\<not> (\<exists>t. tok_expiry_date row = Some t \<and> t < now) \<or> truthy (tok_refresh_token row)) \<and>
     js_truthy (needsRefresh (fst (getUserConnectionStatusFromDatabase e now userId w))) =
       ((\<exists>t. tok_expiry_date row = Some t \<and> t < now) \<and> truthy (tok_refresh_token row)) \<and>
     (\<forall>t. tok_expiry_date row = Some t \<longrightarrow>
        needsRefresh (fst (getUserConnectionStatusFromDatabase e now userId w)) =
          Val (t < now \<and> truthy (tok_refresh_token row))) \<and>
     snd (getUserConnectionStatusFromDatabase e now userId w) = w"
  using assms
  by (auto simp: getUserConnectionStatusFromDatabase_def expiry_check_def js_truthy_def
      js_and_def Let_def split: option.splits)

lemma connection_status_degrades:
  "userId = [] \<or> token_select_fault e \<noteq> None \<or>
     select_single (google_calendar_tokens w) userId = None \<Longrightarrow>
   connected (fst (getUserConnectionStatusFromDatabase e now userId w)) = False \<and>
   snd (getUserConnectionStatusFromDatabase e now userId w) = w"
  by (auto simp: getUserConnectionStatusFromDatabase_def not_connected_def
      split: option.splits fault.splits)

lemma format_event_shape:
  "(ed_due_time ev = None \<longrightarrow>
      dateTime (g_start (formatEventForGoogleCalendar tz ev)) = date_only (ed_due_date ev) \<and>
      dateTime (g_end (formatEventForGoogleCalendar tz ev)) =
        dateTime (g_start (formatEventForGoogleCalendar tz ev)) + 24 * 60 * 60 * 1000) \<and>
   (\<forall>m. ed_due_time ev = Some m \<longrightarrow>
      dateTime (g_start (formatEventForGoogleCalendar tz ev)) =
        date_time_local tz (ed_due_date ev) m \<and>
      dateTime (g_end (formatEventForGoogleCalendar tz ev)) =
        dateTime (g_start (formatEventForGoogleCalendar tz ev)) + 60 * 60 * 1000) \<and>
   timeZone (g_start (formatEventForGoogleCalendar tz ev)) = zone_id tz \<and>
   timeZone (g_end (formatEventForGoogleCalendar tz ev)) = zone_id tz \<and>
   \<not> g_useDefault (formatEventForGoogleCalendar tz ev) \<and>
   g_overrides (formatEventForGoogleCalendar tz ev) =
     [\<lparr>rem_method = ''email'', rem_minutes = 1440\<rparr>, \<lparr>rem_method = ''popup'', rem_minutes = 30\<rparr>]"
  by (simp add: formatEventForGoogleCalendar_def Let_def)

section \<open>Credential manager: the claims\<close>

text \<open>
  Claim C2, as amended. The expiry test is \<open>new Date() > new Date(expiry_date)\<close>, a strict
  comparison. For a user with a stored credential record: when the expiry timestamp
  equals the current time the credential is still valid, and is returned unchanged with
  no refresh and no change of state; when the expiry timestamp lies before the current
  time by any amount (one millisecond, the resolution of the clock, included) and a
  refresh token is stored, the refresh token is presented to the authorization server.
\<close>

theorem expiry_boundary:
  assumes "userId \<noteq> []" and "token_select_fault e = None"
    and "select_single (google_calendar_tokens w) userId = Some row"
  shows
    "(tok_expiry_date row = Some now \<longrightarrow>
        getUserTokensFromDatabase e now userId w =
          (Inr (StoredTokens (tok_access_token row) (tok_refresh_token row)
                  (tok_expiry_date row) (tok_user_id row)), w)) \<and>
     (\<forall>t rt. tok_expiry_date row = Some t \<and> t < now \<and> tok_refresh_token row = Some rt \<and>
        rt \<noteq> [] \<longrightarrow>
        oauth_calls (snd (getUserTokensFromDatabase e now userId w)) = oauth_calls w @ [rt])"
  using assms
  by (auto simp: getUserTokensFromDatabase_def refreshUserTokensFromDatabase_def
      expiry_check_def js_truthy_def Let_def split: option.splits sum.splits fault.splits)

theorem expiry_boundary_witness:
  "getUserTokensFromDatabase (ex_env (Some 5000) []) 1000 ''u1''
     (world_of [ex_row (Some ''r1'') (Some 1000)]) =
     (Inr (StoredTokens ''a1'' (Some ''r1'') (Some 1000) ''u1''),
      world_of [ex_row (Some ''r1'') (Some 1000)]) \<and>
   oauth_calls (snd (getUserTokensFromDatabase (ex_env (Some 5000) []) 1001 ''u1''
     (world_of [ex_row (Some ''r1'') (Some 1000)]))) = [] @ [''r1'']"
proof -
  have u: "''u1'' \<noteq> []" by simp
  have f: "token_select_fault (ex_env (Some 5000) []) = None" by (simp add: ex_env_def)
  have s: "select_single
      (google_calendar_tokens (world_of [ex_row (Some ''r1'') (Some 1000)])) ''u1''
      = Some (ex_row (Some ''r1'') (Some 1000))"
    by (simp add: world_of_def)
  show ?thesis
    using expiry_boundary [OF u f s, of 1000] expiry_boundary [OF u f s, of 1001]
    by (simp add: world_of_def) (simp add: ex_row_def)
qed

text \<open>
  Claim C2 as stated fails: with expiry timestamp 1000 and current time 1000 the stored
  credential is returned and nothing is sent to the authorization server, and with the
  expiry one millisecond before the current time the refresh token is sent.
\<close>

theorem expiry_boundary_counterexample:
  "getUserTokensFromDatabase (ex_env (Some 5000) []) 1000 ''u1''
     (world_of [ex_row (Some ''r1'') (Some 1000)]) =
     (Inr (StoredTokens ''a1'' (Some ''r1'') (Some 1000) ''u1''),
      world_of [ex_row (Some ''r1'') (Some 1000)]) \<and>
   oauth_calls (snd (getUserTokensFromDatabase (ex_env (Some 5000) []) 1000 ''u1''
     (world_of [ex_row (Some ''r1'') (Some 999)]))) = [''r1'']"
  by (simp add: getUserTokensFromDatabase_def refreshUserTokensFromDatabase_def world_of_def
      expiry_check_def js_truthy_def ex_env_def select_single_def ex_row_def)

text \<open>
  Claim C3. For a user identifier that is present and a store that answers the select:
  with no credential record the resolution fails with "No Google tokens found in
  database" (NotConnected); with a record whose expiry is present and in the past and
  whose refresh token is absent it fails with "Token expired and no refresh token
  available" (ExpiredNoRefresh); with a record that has no expiry or whose expiry is not
  in the past it returns the stored credential. In all three cases the state is returned
  as it was: no table is written and the log of calls to the authorization server is the
  same.
\<close>

theorem resolve_credential_outcomes:
  assumes "userId \<noteq> []" and "token_select_fault e = None"
  shows
    "(select_single (google_calendar_tokens w) userId = None \<longrightarrow>
        getUserTokensFromDatabase e now userId w = (Inl NoTokensFound, w)) \<and>
     (\<forall>row t. select_single (google_calendar_tokens w) userId = Some row \<and>
        tok_expiry_date row = Some t \<and> t < now \<and> \<not> truthy (tok_refresh_token row) \<longrightarrow>
        getUserTokensFromDatabase e now userId w = (Inl TokenExpiredNoRefresh, w)) \<and>
     (\<forall>row. select_single (google_calendar_tokens w) userId = Some row \<and>
        (tok_expiry_date row = None \<or> (\<exists>t. tok_expiry_date row = Some t \<and> now \<le> t)) \<longrightarrow>
        getUserTokensFromDatabase e now userId w =
          (Inr (StoredTokens (tok_access_token row) (tok_refresh_token row)
                  (tok_expiry_date row) (tok_user_id row)), w))"
  using assms
  by (auto simp: getUserTokensFromDatabase_def expiry_check_def js_truthy_def truthy_def
      split: option.splits)

theorem resolve_credential_outcomes_witness:
  "getUserTokensFromDatabase (ex_env None []) 1000 ''u1'' (world_of []) =
     (Inl NoTokensFound, world_of []) \<and>
   getUserTokensFromDatabase (ex_env None []) 1000 ''u1'' (world_of [ex_row None (Some 999)]) =
     (Inl TokenExpiredNoRefresh, world_of [ex_row None (Some 999)]) \<and>
   getUserTokensFromDatabase (ex_env None []) 1000 ''u1'' (world_of [ex_row None None]) =
     (Inr (StoredTokens ''a1'' None None ''u1''), world_of [ex_row None None])"
proof -
  have u: "''u1'' \<noteq> []" by simp
  have f: "token_select_fault (ex_env None []) = None" by (simp add: ex_env_def)
  have s0: "select_single (google_calendar_tokens (world_of [])) ''u1'' = None"
    by (simp add: world_of_def select_single_def)
  show ?thesis
    using resolve_credential_outcomes [OF u f, of "world_of []" 1000]
      resolve_credential_outcomes [OF u f, of "world_of [ex_row None (Some 999)]" 1000]
      resolve_credential_outcomes [OF u f, of "world_of [ex_row None None]" 1000] s0
    by (simp add: world_of_def truthy_def) (simp add: ex_row_def truthy_def)
qed

text \<open>
  Claim C7. A refresh, whether the function \<open>refreshUserTokensFromDatabase\<close> itself, the
  transparent path inside \<open>getUserTokensFromDatabase\<close> or the standalone refresh action,
  leaves the user id, the email and the refresh token of every credential record as they
  were, and (for the function) leaves the records of other users untouched. When the
  authorization server answers and the store accepts the update, each of the three
  returns the refreshed credentials to its caller and the table is the old one with the
  access token and the expiry of the user's records replaced: the transparent path for a
  record whose expiry is past and whose refresh token is present, the standalone action
  (status 200) for a record whose refresh token is present. The user's record after the
  update is the record before with these two fields replaced.
\<close>

theorem refresh_frame:
  "map frame (google_calendar_tokens (snd (refreshUserTokensFromDatabase e u rt w))) =
     map frame (google_calendar_tokens w) \<and>
   filter (\<lambda>r. tok_user_id r \<noteq> u)
       (google_calendar_tokens (snd (refreshUserTokensFromDatabase e u rt w))) =
     filter (\<lambda>r. tok_user_id r \<noteq> u) (google_calendar_tokens w) \<and>
   (\<forall>c. refreshAccessToken e rt = Inr c \<and> token_update_fault e = None \<longrightarrow>
      fst (refreshUserTokensFromDatabase e u rt w) = Inr c \<and>
      google_calendar_tokens (snd (refreshUserTokensFromDatabase e u rt w)) =
        update_tokens u c (google_calendar_tokens w)) \<and>
   map frame (google_calendar_tokens (snd (getUserTokensFromDatabase e now u w))) =
     map frame (google_calendar_tokens w) \<and>
   map frame (google_calendar_tokens (snd (refresh_route e u w))) =
     map frame (google_calendar_tokens w) \<and>
   (\<forall>row t c. u \<noteq> [] \<and> token_select_fault e = None \<and>
      select_single (google_calendar_tokens w) u = Some row \<and>
      tok_expiry_date row = Some t \<and> t < now \<and>
      tok_refresh_token row = Some rt \<and> rt \<noteq> [] \<and>
      refreshAccessToken e rt = Inr c \<and> token_update_fault e = None \<longrightarrow>
      fst (getUserTokensFromDatabase e now u w) = Inr (RefreshedTokens c) \<and>
      google_calendar_tokens (snd (getUserTokensFromDatabase e now u w)) =
        update_tokens u c (google_calendar_tokens w)) \<and>
   (\<forall>row c. u \<noteq> [] \<and> token_select_fault e = None \<and>
      select_single (google_calendar_tokens w) u = Some row \<and>
      tok_refresh_token row = Some rt \<and> rt \<noteq> [] \<and>
      refreshAccessToken e rt = Inr c \<and> token_update_fault e = None \<longrightarrow>
      fst (refresh_route e u w) = (200, Some c) \<and>
      google_calendar_tokens (snd (refresh_route e u w)) =
        update_tokens u c (google_calendar_tokens w)) \<and>
   (\<forall>row c. select_single (google_calendar_tokens w) u = Some row \<longrightarrow>
      select_single (update_tokens u c (google_calendar_tokens w)) u =
        Some (row\<lparr>tok_access_token := cred_access_token c,
                  tok_expiry_date := expiry_to_store (cred_expiry_date c)\<rparr>))"
proof -
  have a: "map frame (google_calendar_tokens (snd (refreshUserTokensFromDatabase e u rt w))) =
     map frame (google_calendar_tokens w)" for rt
    using refresh_tokens_cases [of e u rt w] by (auto simp: frame_update_tokens)
  have b: "filter (\<lambda>r. tok_user_id r \<noteq> u)
       (google_calendar_tokens (snd (refreshUserTokensFromDatabase e u rt w))) =
     filter (\<lambda>r. tok_user_id r \<noteq> u) (google_calendar_tokens w)"
    using refresh_tokens_cases [of e u rt w] by (auto simp: others_update_tokens)
  have c: "\<forall>c. refreshAccessToken e rt = Inr c \<and> token_update_fault e = None \<longrightarrow>
      fst (refreshUserTokensFromDatabase e u rt w) = Inr c \<and>
      google_calendar_tokens (snd (refreshUserTokensFromDatabase e u rt w)) =
        update_tokens u c (google_calendar_tokens w)"
    by (simp add: refreshUserTokensFromDatabase_def Let_def)
  have d: "map frame (google_calendar_tokens (snd (getUserTokensFromDatabase e now u w))) =
     map frame (google_calendar_tokens w)"
    using get_tokens_cases [of e now u w] a by auto
  have f: "map frame (google_calendar_tokens (snd (refresh_route e u w))) =
     map frame (google_calendar_tokens w)"
    using route_tokens_cases [of e u w] by (auto simp: frame_update_tokens)
  have g: "\<forall>row t c. u \<noteq> [] \<and> token_select_fault e = None \<and>
      select_single (google_calendar_tokens w) u = Some row \<and>
      tok_expiry_date row = Some t \<and> t < now \<and>
      tok_refresh_token row = Some rt \<and> rt \<noteq> [] \<and>
      refreshAccessToken e rt = Inr c \<and> token_update_fault e = None \<longrightarrow>
      fst (getUserTokensFromDatabase e now u w) = Inr (RefreshedTokens c) \<and>
      google_calendar_tokens (snd (getUserTokensFromDatabase e now u w)) =
        update_tokens u c (google_calendar_tokens w)"
    by (simp add: getUserTokensFromDatabase_def refreshUserTokensFromDatabase_def
        expiry_check_def js_truthy_def Let_def)
  have h: "\<forall>row c. u \<noteq> [] \<and> token_select_fault e = None \<and>
      select_single (google_calendar_tokens w) u = Some row \<and>
      tok_refresh_token row = Some rt \<and> rt \<noteq> [] \<and>
      refreshAccessToken e rt = Inr c \<and> token_update_fault e = None \<longrightarrow>
      fst (refresh_route e u w) = (200, Some c) \<and>
      google_calendar_tokens (snd (refresh_route e u w)) =
        update_tokens u c (google_calendar_tokens w)"
    by (simp add: refresh_route_def Let_def)
  have i: "\<forall>row c. select_single (google_calendar_tokens w) u = Some row \<longrightarrow>
      select_single (update_tokens u c (google_calendar_tokens w)) u =
        Some (row\<lparr>tok_access_token := cred_access_token c,
                  tok_expiry_date := expiry_to_store (cred_expiry_date c)\<rparr>)"
    by (simp add: select_single_update_tokens)
  from a b c d f g h i show ?thesis by blast
qed

theorem refresh_frame_witness:
  "google_calendar_tokens (snd (refreshUserTokensFromDatabase (ex_env (Some 5000) [])
      ''u1'' ''r1'' (world_of [ex_row (Some ''r1'') (Some 999)]))) =
     [\<lparr>tok_user_id = ''u1'', tok_email = ''user-u1@law-bandit.com'', tok_access_token = ''a2'',
       tok_refresh_token = Some ''r1'', tok_expiry_date = Some 5000\<rparr>] \<and>
   fst (refreshUserTokensFromDatabase (ex_env (Some 5000) []) ''u1'' ''r1''
      (world_of [ex_row (Some ''r1'') (Some 999)])) =
     Inr \<lparr>cred_access_token = ''a2'', cred_refresh_token = Some ''r1'',
          cred_expiry_date = Some 5000\<rparr> \<and>
   fst (getUserTokensFromDatabase (ex_env (Some 5000) []) 1000 ''u1''
      (world_of [ex_row (Some ''r1'') (Some 999)])) =
     Inr (RefreshedTokens \<lparr>cred_access_token = ''a2'', cred_refresh_token = Some ''r1'',
          cred_expiry_date = Some 5000\<rparr>) \<and>
   google_calendar_tokens (snd (getUserTokensFromDatabase (ex_env (Some 5000) []) 1000 ''u1''
      (world_of [ex_row (Some ''r1'') (Some 999)]))) =
     [\<lparr>tok_user_id = ''u1'', tok_email = ''user-u1@law-bandit.com'', tok_access_token = ''a2'',
       tok_refresh_token = Some ''r1'', tok_expiry_date = Some 5000\<rparr>] \<and>
   fst (refresh_route (ex_env (Some 5000) []) ''u1''
      (world_of [ex_row (Some ''r1'') (Some 999)])) =
     (200, Some \<lparr>cred_access_token = ''a2'', cred_refresh_token = Some ''r1'',
          cred_expiry_date = Some 5000\<rparr>) \<and>
   google_calendar_tokens (snd (refresh_route (ex_env (Some 5000) []) ''u1''
      (world_of [ex_row (Some ''r1'') (Some 999)]))) =
     [\<lparr>tok_user_id = ''u1'', tok_email = ''user-u1@law-bandit.com'', tok_access_token = ''a2'',
       tok_refresh_token = Some ''r1'', tok_expiry_date = Some 5000\<rparr>]"
proof -
  let ?e = "ex_env (Some 5000) []"
  let ?w = "world_of [ex_row (Some ''r1'') (Some 999)]"
  let ?c = "\<lparr>cred_access_token = ''a2'', cred_refresh_token = Some ''r1'',
          cred_expiry_date = Some 5000\<rparr>"
  have e1: "token_select_fault ?e = None" "token_update_fault ?e = None"
    "refreshAccessToken ?e ''r1'' = Inr ?c"
    by (simp_all add: ex_env_def)
  have s: "select_single (google_calendar_tokens ?w) ''u1'' = Some (ex_row (Some ''r1'') (Some 999))"
    by (simp add: world_of_def)
  have r: "tok_expiry_date (ex_row (Some ''r1'') (Some 999)) = Some 999"
    "tok_refresh_token (ex_row (Some ''r1'') (Some 999)) = Some ''r1''"
    by (simp_all add: ex_row_def)
  have u: "update_tokens ''u1'' ?c (google_calendar_tokens ?w) =
     [\<lparr>tok_user_id = ''u1'', tok_email = ''user-u1@law-bandit.com'', tok_access_token = ''a2'',
       tok_refresh_token = Some ''r1'', tok_expiry_date = Some 5000\<rparr>]"
    by (simp add: world_of_def ex_row_def update_tokens_def expiry_to_store_def)
  show ?thesis
    using refresh_frame [of ?e "''u1''" "''r1''" ?w 1000] e1 s r u
    by simp
qed

text \<open>
  Claim C10. When the authorization server's answer to a refresh carries no expiry and
  the store accepts the update, the user's credential record is persisted with a null
  expiry; from then on every later resolution of the credential (whatever the clock
  reads, as long as the select is answered) returns the stored credential with the
  refreshed access token and leaves the state as it is, so the authorization server is
  never called again.
\<close>

theorem refresh_without_expiry_never_refreshes_again:
  assumes "u \<noteq> []" and "select_single (google_calendar_tokens w) u = Some row"
    and "refreshAccessToken e rt = Inr c" and "cred_expiry_date c = None"
    and "token_update_fault e = None"
    and "w1 = snd (refreshUserTokensFromDatabase e u rt w)"
    and "\<forall>(e', now') \<in> set calls. token_select_fault e' = None"
  shows
    "select_single (google_calendar_tokens w1) u =
       Some (row\<lparr>tok_access_token := cred_access_token c, tok_expiry_date := None\<rparr>) \<and>
     resolve_each calls u w1 =
       (replicate (length calls)
          (Inr (StoredTokens (cred_access_token c) (tok_refresh_token row) None u)), w1)"
proof -
  have t: "google_calendar_tokens w1 = update_tokens u c (google_calendar_tokens w)"
    using assms(3,5,6) by (simp add: refreshUserTokensFromDatabase_def Let_def)
  have s: "select_single (google_calendar_tokens w1) u =
       Some (row\<lparr>tok_access_token := cred_access_token c, tok_expiry_date := None\<rparr>)"
    using select_single_update_tokens [OF assms(2), of c] assms(4)
    by (simp add: t expiry_to_store_def)
  have "resolve_each calls u w1 =
       (replicate (length calls)
          (Inr (StoredTokens
             (tok_access_token
                (row\<lparr>tok_access_token := cred_access_token c, tok_expiry_date := None\<rparr>))
             (tok_refresh_token
                (row\<lparr>tok_access_token := cred_access_token c, tok_expiry_date := None\<rparr>))
             None u)), w1)"
    by (rule resolve_each_non_expiring [OF assms(1) s _ assms(7)]) simp
  with s show ?thesis by simp
qed

theorem refresh_without_expiry_never_refreshes_again_witness:
  "resolve_each [(ex_env (Some 9000) [], 2000), (ex_env (Some 9000) [], 1705368600000)] ''u1''
     \<lparr>google_calendar_tokens = [ex_row (Some ''r1'') None\<lparr>tok_access_token := ''a2''\<rparr>],
      calendar_events = [], oauth2Client = RefreshTokenOnly ''r1'', oauth_calls = [''r1'']\<rparr> =
   ([Inr (StoredTokens ''a2'' (Some ''r1'') None ''u1''),
     Inr (StoredTokens ''a2'' (Some ''r1'') None ''u1'')],
    \<lparr>google_calendar_tokens = [ex_row (Some ''r1'') None\<lparr>tok_access_token := ''a2''\<rparr>],
      calendar_events = [], oauth2Client = RefreshTokenOnly ''r1'', oauth_calls = [''r1'']\<rparr>)"
proof -
  let ?w = "world_of [ex_row (Some ''r1'') (Some 999)]"
  let ?c = "\<lparr>cred_access_token = ''a2'', cred_refresh_token = Some ''r1'',
             cred_expiry_date = None\<rparr>"
  let ?w1 = "\<lparr>google_calendar_tokens = [ex_row (Some ''r1'') None\<lparr>tok_access_token := ''a2''\<rparr>],
      calendar_events = [], oauth2Client = RefreshTokenOnly ''r1'', oauth_calls = [''r1'']\<rparr>"
  have u: "''u1'' \<noteq> []" by simp
  have s: "select_single (google_calendar_tokens ?w) ''u1'' = Some (ex_row (Some ''r1'') (Some 999))"
    by (simp add: world_of_def)
  have r: "refreshAccessToken (ex_env None []) ''r1'' = Inr ?c" by (simp add: ex_env_def)
  have x: "cred_expiry_date ?c = None" by simp
  have f: "token_update_fault (ex_env None []) = None" by (simp add: ex_env_def)
  have w1: "?w1 = snd (refreshUserTokensFromDatabase (ex_env None []) ''u1'' ''r1'' ?w)"
    by (simp add: refreshUserTokensFromDatabase_def ex_env_def world_of_def update_tokens_def
        expiry_to_store_def ex_row_def)
  have c: "\<forall>(e', now') \<in> set [(ex_env (Some 9000) [], 2000),
      (ex_env (Some 9000) [], 1705368600000)]. token_select_fault e' = None"
    by (simp add: ex_env_def)
  show ?thesis
    using refresh_without_expiry_never_refreshes_again [OF u s r x f w1 c]
    by (simp add: ex_row_def)
qed

section \<open>Connection status: the claims\<close>

text \<open>
  Claim C6, evaluated where it fails. For a stored credential record with no expiry and
  no refresh token (not expired, no refresh token) the status object is
  \<open>{connected: true, lastSync: null, needsRefresh: null}\<close>: \<open>isExpired\<close> is the falsy
  left operand \<open>null\<close> of \<open>&&\<close>, and \<open>needsRefresh\<close> is that \<open>null\<close>, not \<open>false\<close>.
\<close>

theorem needs_refresh_null_without_expiry:
  "getUserConnectionStatusFromDatabase (ex_env None []) 1000 ''u1''
      (world_of [ex_row None None]) =
     (\<lparr>connected = True, lastSync = Null, needsRefresh = Null, status_error = Undefined\<rparr>,
      world_of [ex_row None None])"
  by (simp add: getUserConnectionStatusFromDatabase_def world_of_def ex_env_def
      expiry_check_def js_truthy_def js_and_def js_of_option_def truthy_def)
    (simp add: ex_row_def)

theorem needs_refresh_null_without_expiry_witness:
  "needsRefresh (fst (getUserConnectionStatusFromDatabase (ex_env None []) 1000 ''u1''
      (world_of [ex_row None None]))) \<noteq> Val False"
  using needs_refresh_null_without_expiry by simp

text \<open>
  Claim C9. For a user whose credential record the store returns, the \<open>lastSync\<close> field
  of the status is the record's stored expiry timestamp: it is \<open>null\<close> exactly when the
  record has no expiry, and it does not depend on the table of synchronized events.
\<close>

theorem last_sync_is_expiry:
  assumes "userId \<noteq> []" and "token_select_fault e = None"
    and "select_single (google_calendar_tokens w) userId = Some row"
  shows
    "lastSync (fst (getUserConnectionStatusFromDatabase e now userId w)) =
       js_of_option (tok_expiry_date row) \<and>
     (lastSync (fst (getUserConnectionStatusFromDatabase e now userId w)) = Null
        \<longleftrightarrow> tok_expiry_date row = None) \<and>
     (\<forall>evs. lastSync (fst (getUserConnectionStatusFromDatabase e now userId
                (w\<lparr>calendar_events := evs\<rparr>))) = js_of_option (tok_expiry_date row))"
  using assms
  by (auto simp: getUserConnectionStatusFromDatabase_def js_of_option_def Let_def
      split: option.splits)

theorem last_sync_is_expiry_witness:
  "lastSync (fst (getUserConnectionStatusFromDatabase (ex_env None []) 1000 ''u1''
      (world_of [ex_row (Some ''r1'') (Some 4000)]))) = Val 4000 \<and>
   lastSync (fst (getUserConnectionStatusFromDatabase (ex_env None []) 1000 ''u1''
      (world_of [ex_row (Some ''r1'') None]))) = Null"
proof -
  have u: "''u1'' \<noteq> []" by simp
  have f: "token_select_fault (ex_env None []) = None" by (simp add: ex_env_def)
  have s: "select_single (google_calendar_tokens (world_of [ex_row (Some ''r1'') x])) ''u1''
      = Some (ex_row (Some ''r1'') x)" for x
    by (simp add: world_of_def)
  show ?thesis
    using last_sync_is_expiry [OF u f s, of 1000 "Some 4000"]
      last_sync_is_expiry [OF u f s, of 1000 None]
    by (simp add: js_of_option_def ex_row_def)
qed

section \<open>Event mapper: the claims\<close>

text \<open>
  Claim C5, evaluated where it fails. A remote event whose start the calendar service
  writes as 2024-01-15T20:30:00-05:00 has the date portion 2024-01-15 and the
  time-of-day portion 20:30; the row stored for it has the due date 2024-01-16 and the
  due time 01:30, the date and time of the instant's UTC rendering. A bare-date start
  keeps the date as written. The other fields are as the claim says, see
  \<open>to_internal_fields\<close>.
\<close>

theorem timed_start_stored_in_utc:
  "start_date_portion (re_start ex_timed) = 19737 \<and>
   start_time_portion (re_start ex_timed) = Some 1230 \<and>
   ev_due_date (eventToInsert ''u1'' 7 ex_timed) = 19738 \<and>
   ev_due_time (eventToInsert ''u1'' 7 ex_timed) = Some 90 \<and>
   ev_due_date (eventToInsert ''u1'' 7 ex_timed) \<noteq> start_date_portion (re_start ex_timed) \<and>
   ev_due_time (eventToInsert ''u1'' 7 ex_timed) \<noteq> start_time_portion (re_start ex_timed)"
  by (simp add: ex_timed_def eventToInsert_def start_date_portion_def start_time_portion_def
      date_time_offset_def utc_date_def utc_hhmm_def day_ms_def)

text \<open>What the mapping does in general: for a timed start the due date and due time
  are those of the UTC rendering of the instant, which are the written ones when the
  offset is zero; a bare date is kept; the remaining fields are fixed.\<close>

lemma to_internal_fields:
  "(\<forall>written offset. re_start ev = StartDateTime written offset \<longrightarrow>
      (\<exists>m. ev_due_time (eventToInsert u c ev) = Some m \<and> m < 1440 \<and>
           ev_due_date (eventToInsert u c ev) * day_ms + int m * (60 * 1000)
             \<le> date_time_offset written offset \<and>
           date_time_offset written offset
             < ev_due_date (eventToInsert u c ev) * day_ms + int m * (60 * 1000) + 60 * 1000)) \<and>
   (\<forall>written. re_start ev = StartDateTime written 0 \<longrightarrow>
      ev_due_date (eventToInsert u c ev) = start_date_portion (re_start ev) \<and>
      ev_due_time (eventToInsert u c ev) = start_time_portion (re_start ev)) \<and>
   (\<forall>d. re_start ev = StartDate d \<longrightarrow>
      ev_due_date (eventToInsert u c ev) = d \<and> ev_due_time (eventToInsert u c ev) = None) \<and>
   ev_event_type (eventToInsert u c ev) = ''google_calendar'' \<and>
   ev_confidence_score (eventToInsert u c ev) = 1 \<and>
   (\<forall>s. re_summary ev = Some s \<longrightarrow>
      ev_source_text (eventToInsert u c ev) = ''Google Calendar Event: '' @ s) \<and>
   ev_class_id (eventToInsert u c ev) = None \<and>
   ev_user_id (eventToInsert u c ev) = u"
  using utc_hhmm_lt utc_split_bounds
  by (simp add: eventToInsert_def template_str_def start_date_portion_def
      start_time_portion_def date_time_offset_def)

text \<open>Pushing an event due on 2024-01-15 at 20:30 from a process five hours behind UTC
  and pulling the same instant back stores it under 2024-01-16 at 01:30.\<close>

lemma push_pull_changes_day:
  "dateTime (g_start (formatEventForGoogleCalendar ex_zone ex_evening)) =
     date_time_offset 1705350600000 (- 18000000) \<and>
   ev_due_date (eventToInsert ''u1'' 7 ex_timed) = ed_due_date ex_evening + 1"
  by (simp add: formatEventForGoogleCalendar_def ex_zone_def ex_evening_def ex_timed_def
      eventToInsert_def date_time_local_def date_time_offset_def utc_date_def day_ms_def)

text \<open>
  Claim C8. A remote event with no summary is stored under the title
  \<open>Untitled Event\<close>, and one with no description is stored with the empty string as
  description; every row of the mapped batch has a non-empty title and a description
  that is not null.
\<close>

theorem pull_sync_defaults:
  "(re_summary ev = None \<longrightarrow> ev_title (eventToInsert u c ev) = ''Untitled Event'') \<and>
   (re_description ev = None \<longrightarrow> ev_description (eventToInsert u c ev) = Some []) \<and>
   (\<forall>r \<in> set (eventsToInsert u stamp evs). ev_title r \<noteq> [] \<and> ev_description r \<noteq> None)"
  by (auto simp: eventToInsert_def eventsToInsert_def js_or_def in_set_enumerate_eq
      split: option.splits if_splits)

theorem pull_sync_defaults_witness:
  "ev_title (eventToInsert ''u1'' 5 ex_untitled) = ''Untitled Event'' \<and>
   ev_description (eventToInsert ''u1'' 5 ex_untitled) = Some [] \<and>
   ev_title (hd (eventsToInsert ''u1'' (\<lambda>i. 5) [ex_untitled])) \<noteq> []"
  using pull_sync_defaults [of ex_untitled "''u1''" 5 "\<lambda>i. 5" "[ex_untitled]"]
  by (simp add: eventsToInsert_def ex_untitled_def)

text \<open>
  Claim C4, evaluated where it fails. In a process whose local zone is five hours behind
  UTC, an event due on 2024-01-15 with no due time gets the start instant
  2024-01-15T00:00:00Z, which is midnight UTC (19:00 of the previous day, local time);
  local midnight of the due date is the instant 2024-01-15T05:00:00Z, where the timed
  path would place a due time of 00:00. The rest of the claim holds, see
  \<open>format_event_shape\<close>.
\<close>

theorem all_day_start_is_utc_midnight:
  "dateTime (g_start (formatEventForGoogleCalendar ex_zone ex_all_day)) = 1705276800000 \<and>
   date_time_local ex_zone 19737 0 = 1705294800000 \<and>
   dateTime (g_start (formatEventForGoogleCalendar ex_zone ex_all_day)) \<noteq>
     date_time_local ex_zone 19737 0"
  by (simp add: formatEventForGoogleCalendar_def ex_zone_def ex_all_day_def date_only_def
      date_time_local_def day_ms_def)

section \<open>Sync engine: the claims\<close>

text \<open>
  Claim C1. The table \<open>calendar_events\<close> has at most one row per conflict key
  (user id, title, due date). When a pull sync succeeds and a second pull sync of the
  same user and window either fails or returns the same remote events, the table has the
  same number of rows after the second run as after the first. After a run the table
  still has at most one row per conflict key, and for every row of the mapped batch the
  table holds exactly one row with its key: the last row of the batch that has this key.
\<close>

theorem pull_sync_idempotent:
  assumes "distinct (map conflict_key (calendar_events w0))"
    and "syncEventsToDatabaseFromDatabase e1 now1 stamp1 u cal sd ed w0 = (Inr res1, w1)"
    and "syncEventsToDatabaseFromDatabase e2 now2 stamp2 u cal sd ed w1 = (out2, w2)"
    and "\<forall>res2. out2 = Inr res2 \<longrightarrow> events res2 = events res1"
  shows
    "length (calendar_events w2) = length (calendar_events w1) \<and>
     distinct (map conflict_key (calendar_events w1)) \<and>
     (\<forall>r \<in> set (eventsToInsert u stamp1 (events res1)).
        filter (\<lambda>x. conflict_key x = conflict_key r) (calendar_events w1) =
          [last (filter (\<lambda>x. conflict_key x = conflict_key r)
                   (eventsToInsert u stamp1 (events res1)))])"
proof -
  let ?b1 = "eventsToInsert u stamp1 (events res1)"
  have t1: "calendar_events w1 = upsert (calendar_events w0) ?b1"
    using assms(2) by (rule sync_events_success)
  have a: "length (calendar_events w2) = length (calendar_events w1)"
  proof (cases out2)
    case (Inl err)
    with assms(3) show ?thesis by (simp add: sync_events_failure)
  next
    case (Inr res2)
    let ?b2 = "eventsToInsert u stamp2 (events res2)"
    have t2: "calendar_events w2 = upsert (calendar_events w1) ?b2"
      using assms(3) Inr by (simp add: sync_events_success)
    have "events res2 = events res1" using assms(4) Inr by simp
    then have "map conflict_key ?b2 = map conflict_key ?b1"
      by (simp add: eventsToInsert_keys)
    then have "conflict_key ` set ?b2 = conflict_key ` set ?b1"
      by (metis list.set_map)
    then have "conflict_key ` set ?b2 \<subseteq> conflict_key ` set (calendar_events w1)"
      by (simp add: t1 upsert_keys_set)
    then show ?thesis by (simp add: t2 upsert_length_known_keys)
  qed
  have b: "distinct (map conflict_key (calendar_events w1))"
    using assms(1) by (simp add: t1 upsert_distinct)
  have c: "\<forall>r \<in> set ?b1.
        filter (\<lambda>x. conflict_key x = conflict_key r) (calendar_events w1) =
          [last (filter (\<lambda>x. conflict_key x = conflict_key r) ?b1)]"
    using upsert_later_wins [OF assms(1)] by (simp add: t1)
  from a b c show ?thesis by blast
qed

theorem pull_sync_idempotent_witness:
  "length (calendar_events (snd (syncEventsToDatabaseFromDatabase
       (ex_env None [ex_lunch ''first'', ex_lunch ''second'']) 2000 (\<lambda>i. 2000 + int i)
       ''u1'' ''primary'' None None
       (snd (syncEventsToDatabaseFromDatabase
          (ex_env None [ex_lunch ''first'', ex_lunch ''second'']) 1000 (\<lambda>i. 1000 + int i)
          ''u1'' ''primary'' None None ex_w0))))) = 1 \<and>
   calendar_events (snd (syncEventsToDatabaseFromDatabase
       (ex_env None [ex_lunch ''first'', ex_lunch ''second'']) 1000 (\<lambda>i. 1000 + int i)
       ''u1'' ''primary'' None None ex_w0)) =
     [eventToInsert ''u1'' 1001 (ex_lunch ''second'')]"
proof -
  let ?e = "ex_env None [ex_lunch ''first'', ex_lunch ''second'']"
  let ?res = "\<lparr>syncedCount = 2, events = [ex_lunch ''first'', ex_lunch ''second'']\<rparr>"
  let ?w1 = "ex_w0\<lparr>oauth2Client := ClientTokens (StoredTokens ''a1'' (Some ''r1'') None ''u1''),
      calendar_events := [eventToInsert ''u1'' 1001 (ex_lunch ''second'')]\<rparr>"
  let ?w2 = "ex_w0\<lparr>oauth2Client := ClientTokens (StoredTokens ''a1'' (Some ''r1'') None ''u1''),
      calendar_events := [eventToInsert ''u1'' 2001 (ex_lunch ''second'')]\<rparr>"
  have k: "conflict_key (eventToInsert u a (ex_lunch d)) = (u, ''Lunch'', 19737)" for u a d
    by (simp add: conflict_key_def eventToInsert_def ex_lunch_def js_or_def)
  have g: "getCalendarClientFromDatabase ?e now ''u1'' (ex_w0\<lparr>oauth2Client := c, calendar_events := t\<rparr>) =
      (Inr (StoredTokens ''a1'' (Some ''r1'') None ''u1''),
       ex_w0\<lparr>oauth2Client := ClientTokens (StoredTokens ''a1'' (Some ''r1'') None ''u1''),
         calendar_events := t\<rparr>)" for now c t
    by (simp add: getCalendarClientFromDatabase_def getUserTokensFromDatabase_def ex_env_def
        ex_w0_def world_of_def expiry_check_def js_truthy_def)
      (simp add: ex_row_def)
  have g0: "getCalendarClientFromDatabase ?e now ''u1'' ex_w0 =
      (Inr (StoredTokens ''a1'' (Some ''r1'') None ''u1''),
       ex_w0\<lparr>oauth2Client := ClientTokens (StoredTokens ''a1'' (Some ''r1'') None ''u1'')\<rparr>)" for now
    by (simp add: getCalendarClientFromDatabase_def getUserTokensFromDatabase_def ex_env_def
        ex_w0_def world_of_def expiry_check_def js_truthy_def)
      (simp add: ex_row_def)
  have b: "eventsToInsert ''u1'' stamp [ex_lunch ''first'', ex_lunch ''second''] =
      [eventToInsert ''u1'' (stamp 0) (ex_lunch ''first''),
       eventToInsert ''u1'' (stamp 1) (ex_lunch ''second'')]" for stamp
    by (simp add: eventsToInsert_def)
  have e0: "calendar_events ex_w0 = []" by (simp add: ex_w0_def world_of_def)
  have el: "events_list ?e cal a z = Inr [ex_lunch ''first'', ex_lunch ''second'']" for cal a z
    by (simp add: ex_env_def)
  have uf: "upsert_fault ?e = None" by (simp add: ex_env_def)
  have r1: "syncEventsToDatabaseFromDatabase ?e 1000 (\<lambda>i. 1000 + int i) ''u1'' ''primary''
      None None ex_w0 = (Inr ?res, ?w1)"
    by (simp add: syncEventsToDatabaseFromDatabase_def g0 b upsert_def upsert_row_def k e0 el uf)
  have r2: "syncEventsToDatabaseFromDatabase ?e 2000 (\<lambda>i. 2000 + int i) ''u1'' ''primary''
      None None ?w1 = (Inr ?res, ?w2)"
    by (simp add: syncEventsToDatabaseFromDatabase_def g b upsert_def upsert_row_def k el uf)
  have d: "distinct (map conflict_key (calendar_events ex_w0))" by (simp add: e0)
  have "\<forall>res2. Inr ?res = Inr res2 \<longrightarrow> events res2 = events ?res" by simp
  from pull_sync_idempotent [OF d r1 r2 this] show ?thesis
    by (simp add: r1 r2)
qed

end
